theory Spec2Isabelle
  imports Main "HOL-Library.Sublist"
begin

section \<open>Python strings\<close>

text \<open>
  A Python \<open>str\<close> is a sequence of code points (numbers below \<open>0x110000\<close>, lone
  surrogates included); the content of a file is a sequence of bytes, for which Isabelle's
  \<open>string\<close> (a list of 8-bit characters) is used. \<open>str\<close> turns a literal into a Python
  \<open>str\<close>. The text of a model response, which is never encoded, keeps the type \<open>string\<close>.
\<close>

type_synonym ustr = "nat list"

definition str :: "string \<Rightarrow> ustr" where
  "str s = map of_char s"

text \<open>
  \<open>str_find sub t\<close> is \<open>t.find(sub)\<close>: the index of the leftmost occurrence of
  \<open>sub\<close> in \<open>t\<close>, \<open>None\<close> standing for Python's \<open>-1\<close>.
\<close>

fun str_find :: "'a list \<Rightarrow> 'a list \<Rightarrow> nat option" where
  "str_find sub [] = (if sub = [] then Some 0 else None)"
| "str_find sub (x # xs) =
     (if prefix sub (x # xs) then Some 0 else map_option Suc (str_find sub xs))"

text \<open>\<open>str_contains sub t\<close> is Python's \<open>sub in t\<close>.\<close>

definition str_contains :: "'a list \<Rightarrow> 'a list \<Rightarrow> bool" where
  "str_contains sub t = (str_find sub t \<noteq> None)"

text \<open>
  \<open>replace_first old new t\<close> is \<open>t.replace(old, new, 1)\<close>: the leftmost occurrence of
  \<open>old\<close> is replaced by \<open>new\<close>; a text without an occurrence is returned as it is.
\<close>

definition replace_first :: "'a list \<Rightarrow> 'a list \<Rightarrow> 'a list \<Rightarrow> 'a list" where
  "replace_first old new t =
     (case str_find old t of
        None \<Rightarrow> t
      | Some i \<Rightarrow> take i t @ new @ drop (i + length old) t)"

text \<open>
  \<open>occurrences sub t\<close> lists, in increasing order, every index at which \<open>sub\<close> occurs
  in \<open>t\<close> (overlapping occurrences included). It is the specification side of
  "occurs exactly once".
\<close>

definition occurrences :: "'a list \<Rightarrow> 'a list \<Rightarrow> nat list" where
  "occurrences sub t = filter (\<lambda>i. prefix sub (drop i t)) [0..<Suc (length t)]"

section \<open>Text files: decoding, line ends, encoding\<close>

text \<open>
  Reading in text mode translates line ends (universal newlines): a carriage return
  followed by a line feed, and a lone carriage return, are read as one line feed.
\<close>

fun translate_newlines :: "ustr \<Rightarrow> ustr" where
  "translate_newlines [] = []"
| "translate_newlines [c] = [if c = 13 then 10 else c]"
| "translate_newlines (c # d # ds) =
     (if c = 13 \<and> d = 10 then 10 # translate_newlines ds
      else if c = 13 then 10 # translate_newlines (d # ds)
      else c # translate_newlines (d # ds))"

text \<open>
  \<open>utf8_encode\<close> is \<open>str.encode("utf-8")\<close>: \<open>None\<close> stands for \<open>UnicodeEncodeError\<close>,
  raised for a surrogate (\<open>0xD800\<close> to \<open>0xDFFF\<close>).
\<close>

definition encode_code_point :: "nat \<Rightarrow> string option" where
  "encode_code_point cp =
     (if cp < 0x80 then Some [char_of cp]
      else if cp < 0x800 then Some [char_of (0xC0 + cp div 64), char_of (0x80 + cp mod 64)]
      else if cp < 0x10000 then
        (if 0xD800 \<le> cp \<and> cp < 0xE000 then None
         else Some [char_of (0xE0 + cp div 4096), char_of (0x80 + cp div 64 mod 64),
                    char_of (0x80 + cp mod 64)])
      else if cp < 0x110000 then
        Some [char_of (0xF0 + cp div 262144), char_of (0x80 + cp div 4096 mod 64),
              char_of (0x80 + cp div 64 mod 64), char_of (0x80 + cp mod 64)]
      else None)"

fun utf8_encode :: "ustr \<Rightarrow> string option" where
  "utf8_encode [] = Some []"
| "utf8_encode (c # cs) =
     (case encode_code_point c of
        None \<Rightarrow> None
      | Some bs \<Rightarrow> (case utf8_encode cs of None \<Rightarrow> None | Some r \<Rightarrow> Some (bs @ r)))"

text \<open>
  The codec \<open>ascii\<close>, one of the encodings a locale can have: \<open>None\<close> stands for
  \<open>UnicodeDecodeError\<close>.
\<close>

definition ascii_decode :: "string \<Rightarrow> ustr option" where
  "ascii_decode bs =
     (if list_all (\<lambda>b. (of_char b :: nat) < 128) bs then Some (map of_char bs) else None)"

section \<open>Paths and the file system\<close>

text \<open>
  \<open>Path(s)\<close> of \<open>pathlib\<close> (POSIX flavour) splits the text at \<open>/\<close>, drops empty and
  \<open>.\<close> components and keeps \<open>..\<close>. A pure path is its root (empty for a relative
  path, \<open>/\<close> or \<open>//\<close> otherwise) and the list of its components.
\<close>

type_synonym path = "ustr \<times> ustr list"

fun split_slash :: "ustr \<Rightarrow> ustr list" where
  "split_slash [] = [[]]"
| "split_slash (c # cs) =
     (if c = of_char CHR ''/'' then [] # split_slash cs
      else (case split_slash cs of
              [] \<Rightarrow> [[c]]
            | w # ws \<Rightarrow> (c # w) # ws))"

definition path_root :: "ustr \<Rightarrow> ustr" where
  "path_root s =
     (if take 1 s = str ''/'' then
        (if take 2 s = str ''//'' \<and> take 3 s \<noteq> str ''///'' then str ''//'' else str ''/'')
      else [])"

definition Path :: "ustr \<Rightarrow> path" where
  "Path s = (path_root s, filter (\<lambda>w. w \<noteq> [] \<and> w \<noteq> str ''.'') (split_slash s))"

text \<open>\<open>p.parent\<close>: the path without its last component; a bare root or \<open>.\<close> is its own parent.\<close>

definition parent :: "path \<Rightarrow> path" where
  "parent p = (fst p, butlast (snd p))"

text \<open>
  The file system is a current directory, a table of nodes and the encoding of the
  locale, which \<open>read_text\<close> decodes with. A node is addressed by its key: the list of
  names leading to it from the root directory, which is the key \<open>[]\<close> and always a
  directory. A file holds bytes. Symbolic links and permissions are not modelled, and a
  name is handed to the operating system as it is.
\<close>

datatype node = File string | Dir

type_synonym key = "ustr list"

record fs =
  cwd :: key
  nodes :: "key \<Rightarrow> node option"
  locale_decode :: "string \<Rightarrow> ustr option"

datatype error =
    RuntimeError ustr
  | FileExistsError
  | FileNotFoundError
  | NotADirectoryError
  | IsADirectoryError
  | UnicodeDecodeError
  | UnicodeEncodeError

definition node_at :: "fs \<Rightarrow> key \<Rightarrow> node option" where
  "node_at s k = (if k = [] then Some Dir else nodes s k)"

text \<open>
  Path resolution as the operating system does it: every component but the last must lead
  through an existing directory; \<open>..\<close> steps to the directory above (the root is above
  itself). The result is the key the path names, which may be absent.
\<close>

fun walk :: "fs \<Rightarrow> key \<Rightarrow> ustr list \<Rightarrow> error + key" where
  "walk s k [] = Inr k"
| "walk s k (c # cs) =
     (case node_at s k of
        None \<Rightarrow> Inl FileNotFoundError
      | Some (File t) \<Rightarrow> Inl NotADirectoryError
      | Some Dir \<Rightarrow> walk s (if c = str ''..'' then butlast k else k @ [c]) cs)"

definition resolve :: "fs \<Rightarrow> path \<Rightarrow> error + key" where
  "resolve s p = walk s (if fst p = [] then cwd s else []) (snd p)"

text \<open>\<open>p.exists()\<close> and \<open>p.is_dir()\<close>: a path that cannot be resolved does not exist.\<close>

definition exists :: "fs \<Rightarrow> path \<Rightarrow> bool" where
  "exists s p = (case resolve s p of Inl e \<Rightarrow> False | Inr k \<Rightarrow> node_at s k \<noteq> None)"

definition is_dir :: "fs \<Rightarrow> path \<Rightarrow> bool" where
  "is_dir s p = (case resolve s p of Inl e \<Rightarrow> False | Inr k \<Rightarrow> node_at s k = Some Dir)"

text \<open>\<open>os.mkdir(p)\<close>: creates one directory; the path must not exist yet.\<close>

definition os_mkdir :: "path \<Rightarrow> fs \<Rightarrow> error + fs" where
  "os_mkdir p s =
     (case resolve s p of
        Inl e \<Rightarrow> Inl e
      | Inr k \<Rightarrow>
          (if node_at s k \<noteq> None then Inl FileExistsError
           else Inr (s\<lparr>nodes := (nodes s)(k \<mapsto> Dir)\<rparr>)))"

text \<open>
  \<open>p.mkdir(parents=False, exist_ok=True)\<close> and \<open>p.mkdir(parents=True, exist_ok=True)\<close> of
  \<open>pathlib\<close>: \<open>os.mkdir\<close> is tried first; when a directory on the way is missing, the
  parent is made (with its own parents) and the directory is made again without
  \<open>parents\<close>; any other error is swallowed when the path is a directory already.
  \<open>mkdir_parents\<close> returns the exception raised, if any, and the file system it leaves:
  the directories made before a failure stay.
\<close>

definition mkdir_exist_ok :: "path \<Rightarrow> fs \<Rightarrow> error + fs" where
  "mkdir_exist_ok p s =
     (case os_mkdir p s of
        Inr s' \<Rightarrow> Inr s'
      | Inl e \<Rightarrow>
          (if e = FileNotFoundError then Inl e
           else if is_dir s p then Inr s else Inl e))"

function mkdir_parents :: "path \<Rightarrow> fs \<Rightarrow> error option \<times> fs" where
  "mkdir_parents p s =
     (case os_mkdir p s of
        Inr s' \<Rightarrow> (None, s')
      | Inl e \<Rightarrow>
          (if e = FileNotFoundError then
             (if parent p = p then (Some e, s)
              else (case mkdir_parents (parent p) s of
                      (Some e', s') \<Rightarrow> (Some e', s')
                    | (None, s') \<Rightarrow>
                        (case mkdir_exist_ok p s' of
                           Inl e'' \<Rightarrow> (Some e'', s')
                         | Inr s'' \<Rightarrow> (None, s''))))
           else if is_dir s p then (None, s) else (Some e, s)))"
  by pat_completeness auto
termination
proof (relation "measure (\<lambda>(p, s). length (snd p))")
  show "wf (measure (\<lambda>(p, s). length (snd p)))" by simp
next
  fix p :: path and s :: fs and e :: error
  assume "parent p \<noteq> p"
  then have "snd p \<noteq> []"
    by (cases p) (auto simp: parent_def)
  then show "((parent p, s), (p, s)) \<in> measure (\<lambda>(p, s). length (snd p))"
    by (simp add: parent_def)
qed

declare mkdir_parents.simps [simp del]

text \<open>
  \<open>p.read_text()\<close>, with no encoding given: the bytes are decoded with the encoding of the
  locale and the line ends are translated.
\<close>

definition read_text :: "fs \<Rightarrow> path \<Rightarrow> error + ustr" where
  "read_text s p =
     (case resolve s p of
        Inl e \<Rightarrow> Inl e
      | Inr k \<Rightarrow>
          (case node_at s k of
             None \<Rightarrow> Inl FileNotFoundError
           | Some Dir \<Rightarrow> Inl IsADirectoryError
           | Some (File bs) \<Rightarrow>
               (case locale_decode s bs of
                  None \<Rightarrow> Inl UnicodeDecodeError
                | Some u \<Rightarrow> Inr (translate_newlines u))))"

text \<open>
  \<open>p.write_text(new, encoding="utf-8")\<close>: the file is opened for writing, which creates
  or empties it, and the encoded text is written; a text that cannot be encoded leaves the
  file empty. The exception raised, if any, and the file system left.
\<close>

definition write_text :: "path \<Rightarrow> ustr \<Rightarrow> fs \<Rightarrow> error option \<times> fs" where
  "write_text p new s =
     (case resolve s p of
        Inl e \<Rightarrow> (Some e, s)
      | Inr k \<Rightarrow>
          (if node_at s k = Some Dir then (Some IsADirectoryError, s)
           else (case utf8_encode new of
                   None \<Rightarrow> (Some UnicodeEncodeError, s\<lparr>nodes := (nodes s)(k \<mapsto> File [])\<rparr>)
                 | Some bs \<Rightarrow> (None, s\<lparr>nodes := (nodes s)(k \<mapsto> File bs)\<rparr>))))"

section \<open>The change applier (applier.py)\<close>

record change =
  file' :: ustr
  original :: ustr
  edited :: ustr

text \<open>
  The text one change writes, or the exception raised before anything is written: the
  body of the loop of \<open>apply\<close> between \<open>mkdir\<close> and \<open>write_text\<close>.
\<close>

definition new_text :: "change \<Rightarrow> fs \<Rightarrow> error + ustr" where
  "new_text c s =
     (let p = Path (file' c) in
      if exists s p then
        (case read_text s p of
           Inl e \<Rightarrow> Inl e
         | Inr t \<Rightarrow>
             (if original c \<noteq> [] then
                (if \<not> str_contains (original c) t
                 then Inl (RuntimeError (str ''Mismatch in '' @ file' c))
                 else Inr (replace_first (original c) (edited c) t))
              else Inr (edited c)))
      else Inr (edited c))"

text \<open>
  \<open>apply changes\<close> on a file system: the exception raised, if any (\<open>None\<close> when the
  call returns), and the file system it leaves behind.
\<close>

fun apply_changes :: "change list \<Rightarrow> fs \<Rightarrow> error option \<times> fs" where
  "apply_changes [] s = (None, s)"
| "apply_changes (c # cs) s =
     (let p = Path (file' c) in
      case mkdir_parents (parent p) s of
        (Some e, s1) \<Rightarrow> (Some e, s1)
      | (None, s1) \<Rightarrow>
          (case new_text c s1 of
             Inl e \<Rightarrow> (Some e, s1)
           | Inr new \<Rightarrow>
               (case write_text p new s1 of
                  (Some e, s2) \<Rightarrow> (Some e, s2)
                | (None, s2) \<Rightarrow> apply_changes cs s2)))"

section \<open>Well-formed file systems\<close>

text \<open>
  In a file system the current directory is a directory and every node lies in a
  directory. \<open>extends s s'\<close>: \<open>s'\<close> is \<open>s\<close> with new, empty directories and nothing else
  changed.
\<close>

definition wf_fs :: "fs \<Rightarrow> bool" where
  "wf_fs s \<longleftrightarrow>
     node_at s (cwd s) = Some Dir \<and>
     (\<forall>k. nodes s k \<noteq> None \<longrightarrow> node_at s (butlast k) = Some Dir)"

definition extends :: "fs \<Rightarrow> fs \<Rightarrow> bool" where
  "extends s s' \<longleftrightarrow>
     cwd s' = cwd s \<and> locale_decode s' = locale_decode s \<and>
     (\<forall>k. nodes s' k = nodes s k \<or> (nodes s k = None \<and> nodes s' k = Some Dir))"


text \<open>
  The file system of the scenarios: a current directory that holds one file
  \<open>a.txt\<close> with the given bytes, in a locale with the encoding \<open>ascii\<close>.
\<close>

definition scenario_fs :: "string \<Rightarrow> fs" where
  "scenario_fs bs = \<lparr>cwd = [str ''home''],
     nodes = [[str ''home''] \<mapsto> Dir, [str ''home'', str ''a.txt''] \<mapsto> File bs],
     locale_decode = ascii_decode\<rparr>"


section \<open>Extracting JSON from a model response (main.py)\<close>

text \<open>
  \<open>json.loads\<close> is Python's library; \<open>extract_json\<close> only asks whether it accepts a
  text. The recogniser below follows the decoder of CPython (strict mode, the default):
  white space is blank, tab, line feed and carriage return.
\<close>

definition is_ws :: "char \<Rightarrow> bool" where
  "is_ws c = (c = CHR '' '' \<or> c = CHR 0x09 \<or> c = CHR 0x0A \<or> c = CHR 0x0D)"

definition skip_ws :: "string \<Rightarrow> string" where
  "skip_ws s = dropWhile is_ws s"

definition is_digit :: "char \<Rightarrow> bool" where
  "is_digit c = (c \<in> set ''0123456789'')"

definition is_hex :: "char \<Rightarrow> bool" where
  "is_hex c = (c \<in> set ''0123456789abcdefABCDEF'')"

definition is_control :: "char \<Rightarrow> bool" where
  "is_control c = ((of_char c :: nat) < 32)"

text \<open>
  \<open>scanstring\<close>, entered behind the opening quote: the text behind the closing quote.
  A backslash starts one of the escapes of JSON (\<open>u\<close> with four hexadecimal digits);
  a control character is not allowed in a string.
\<close>

function scanstring :: "string \<Rightarrow> string option" where
  "scanstring [] = None"
| "scanstring (c # cs) =
     (if c = CHR 0x22 then Some cs
      else if c = CHR 0x5C then
        (case cs of
           [] \<Rightarrow> None
         | e # cs' \<Rightarrow>
             (if e = CHR ''u'' then
                (if 4 \<le> length cs' \<and> list_all is_hex (take 4 cs')
                 then scanstring (drop 4 cs') else None)
              else if e \<in> set [CHR 0x22, CHR 0x5C, CHR ''/'', CHR ''b'', CHR ''f'',
                                CHR ''n'', CHR ''r'', CHR ''t'']
              then scanstring cs' else None))
      else if is_control c then None
      else scanstring cs)"
  by pat_completeness auto
termination
  by (relation "measure length") auto

text \<open>
  The number pattern \<open>-?(0|[1-9][0-9]*)(.[0-9]+)?([eE][-+]?[0-9]+)?\<close>, matched at the
  front of the text, part by part (sign, integer, fraction, exponent): the text behind the
  longest match; a fraction or an exponent without a digit is not part of the number.
\<close>

definition skip_minus :: "string \<Rightarrow> string" where
  "skip_minus s = (case s of [] \<Rightarrow> [] | c # cs \<Rightarrow> if c = CHR ''-'' then cs else s)"

definition match_int :: "string \<Rightarrow> string option" where
  "match_int s =
     (case s of
        [] \<Rightarrow> None
      | d # ds \<Rightarrow>
          if d = CHR ''0'' then Some ds
          else if is_digit d then Some (dropWhile is_digit ds)
          else None)"

definition match_frac :: "string \<Rightarrow> string" where
  "match_frac s =
     (case s of
        p # f # fs \<Rightarrow> if p = CHR ''.'' \<and> is_digit f then dropWhile is_digit fs else s
      | _ \<Rightarrow> s)"

definition skip_sign :: "string \<Rightarrow> string" where
  "skip_sign s =
     (case s of [] \<Rightarrow> [] | g # gs \<Rightarrow> if g = CHR ''-'' \<or> g = CHR ''+'' then gs else s)"

definition match_exp :: "string \<Rightarrow> string" where
  "match_exp s =
     (case s of
        [] \<Rightarrow> s
      | e # es \<Rightarrow>
          if e = CHR ''e'' \<or> e = CHR ''E'' then
            (case skip_sign es of
               [] \<Rightarrow> s
             | x # xs \<Rightarrow> if is_digit x then dropWhile is_digit xs else s)
          else s)"

definition match_number :: "string \<Rightarrow> string option" where
  "match_number s =
     (case match_int (skip_minus s) of
        None \<Rightarrow> None
      | Some s2 \<Rightarrow> Some (match_exp (match_frac s2)))"

text \<open>
  \<open>scan_once\<close> reads one JSON value, \<open>parse_members\<close> the members of an object from
  its first key on, \<open>parse_items\<close> the items of an array; each returns the text behind what
  it read. The first argument bounds the recursion: each call works on a text shorter
  than its caller's, so the length of the text is enough.
\<close>

fun scan_once :: "nat \<Rightarrow> string \<Rightarrow> string option"
  and parse_members :: "nat \<Rightarrow> string \<Rightarrow> string option"
  and parse_items :: "nat \<Rightarrow> string \<Rightarrow> string option" where
  "scan_once 0 s = None"
| "scan_once (Suc n) [] = None"
| "scan_once (Suc n) (c # cs) =
     (if c = CHR 0x22 then scanstring cs
      else if c = CHR ''{'' then
        (case skip_ws cs of
           [] \<Rightarrow> None
         | x # r \<Rightarrow> if x = CHR ''}'' then Some r else parse_members n (x # r))
      else if c = CHR ''['' then
        (case skip_ws cs of
           [] \<Rightarrow> None
         | x # r \<Rightarrow> if x = CHR '']'' then Some r else parse_items n (x # r))
      else if take 4 (c # cs) = ''null'' then Some (drop 4 (c # cs))
      else if take 4 (c # cs) = ''true'' then Some (drop 4 (c # cs))
      else if take 5 (c # cs) = ''false'' then Some (drop 5 (c # cs))
      else (case match_number (c # cs) of
              Some r \<Rightarrow> Some r
            | None \<Rightarrow>
                if take 3 (c # cs) = ''NaN'' then Some (drop 3 (c # cs))
                else if take 8 (c # cs) = ''Infinity'' then Some (drop 8 (c # cs))
                else if take 9 (c # cs) = ''-Infinity'' then Some (drop 9 (c # cs))
                else None))"
| "parse_members 0 s = None"
| "parse_members (Suc n) [] = None"
| "parse_members (Suc n) (q # s) =
     (if q \<noteq> CHR 0x22 then None
      else case scanstring s of
        None \<Rightarrow> None
      | Some r1 \<Rightarrow>
          (case skip_ws r1 of
             [] \<Rightarrow> None
           | col # r2 \<Rightarrow>
               if col \<noteq> CHR '':'' then None
               else (case scan_once n (skip_ws r2) of
                       None \<Rightarrow> None
                     | Some r3 \<Rightarrow>
                         (case skip_ws r3 of
                            [] \<Rightarrow> None
                          | x # r4 \<Rightarrow>
                              if x = CHR ''}'' then Some r4
                              else if x = CHR '','' then parse_members n (skip_ws r4)
                              else None))))"
| "parse_items 0 s = None"
| "parse_items (Suc n) s =
     (case scan_once n s of
        None \<Rightarrow> None
      | Some r3 \<Rightarrow>
          (case skip_ws r3 of
             [] \<Rightarrow> None
           | x # r4 \<Rightarrow>
               if x = CHR '']'' then Some r4
               else if x = CHR '','' then parse_items n (skip_ws r4)
               else None))"

text \<open>
  \<open>json_loads_ok s\<close>: \<open>json.loads(s)\<close> returns, that is, \<open>s\<close> is one JSON value with
  white space around it and nothing else. (\<open>json.loads\<close> is taken to raise nothing but
  \<open>JSONDecodeError\<close>.)
\<close>

definition json_loads_ok :: "string \<Rightarrow> bool" where
  "json_loads_ok s =
     (case scan_once (Suc (length s)) (skip_ws s) of
        None \<Rightarrow> False
      | Some r \<Rightarrow> skip_ws r = [])"

text \<open>
  \<open>slice text a b\<close> is \<open>text[a:b]\<close> for indices \<open>a\<close>, \<open>b\<close> that are not negative;
  \<open>str_rfind sub t\<close> is \<open>t.rfind(sub)\<close>.
\<close>

definition slice :: "string \<Rightarrow> nat \<Rightarrow> nat \<Rightarrow> string" where
  "slice text a b = take (b - a) (drop a text)"







section \<open>The orchestration loop (main.py)\<close>

text \<open>
  \<open>handle\<close> runs one turn: it asks the provider, reads the reply and either ends the
  turn or calls itself on a new instruction. The model keeps its control flow and the
  effects the loop is judged by; what it leaves out is the console (printing, diffs,
  speech), the token statistics and the debug history. The world outside is given by an
  environment of oracles: the replies of the provider (each already taken through
  \<open>extract_json\<close> and \<open>json.loads\<close>, and an object when it parses), the lines the user
  types, the processes that commands start, the web, the project search, the slash
  commands, and three functions of Python's library that are taken as they are
  (\<open>repr\<close> of a list of strings, \<open>str.lower\<close>, \<open>str.upper\<close>, and \<open>str\<close> of an exception).
\<close>

record args =
  args_yes :: bool
  args_plan :: bool
  args_fast :: bool

record config =
  mission_mode :: bool
  planning_mode :: bool
  fast_mode :: bool
  voice_mode :: bool
  newline_support :: bool
  visibility_allowed :: bool
  web_browsing_allowed :: bool
  run_policy :: ustr

datatype mission_data = Error ustr | Files ustr | Web_results ustr | Project_search ustr

text \<open>
  The fields of the reply that \<open>handle\<close> reads with \<open>data.get\<close>; a field that is absent,
  \<open>null\<close> or empty is the empty text or list (all three are false in a condition).
\<close>

record data =
  request_files :: "ustr list"
  web_search :: ustr
  web_browse :: ustr
  search_project :: ustr
  response :: ustr
  plan :: ustr
  changes :: "change list"
  commands :: "ustr list"

text \<open>
  What a call of the provider comes to: the provider cannot be set up; \<open>build\<close> or the
  call raises; the user interrupts it; the reply is not JSON, neither as it is nor inside a
  fence (with the message handed to the next mission step); the reply is an object.
\<close>

datatype reply = Init_error | Provider_error | Interrupt | Parse_error ustr | Object data

record completed =
  stdout :: ustr
  stderr :: ustr
  returncode :: int

text \<open>
  The effects recorded: a thinking cycle (\<open>build\<close> and \<open>provider.call\<close>, with the
  instruction, the plan-only and fast flags and the mission data), the read of a requested
  file, a web search, a page fetched, a project search, a command run with its output
  captured, a command run on the terminal, a line asked from the user, a call of \<open>apply\<close>,
  and a record added to the session history.
\<close>

datatype event =
    Think ustr bool bool "mission_data option"
  | Read_text ustr
  | Web_search ustr
  | Web_browse ustr
  | Search_project ustr
  | Run_captured ustr
  | Run ustr
  | Input
  | Apply "change list"
  | Add ustr

datatype exn = File_error error | RecursionError | UnboundLocalError | KeyboardInterrupt

record env =
  provider_call :: "nat \<Rightarrow> reply"
  console_input :: "nat \<Rightarrow> ustr option"
  subprocess_run :: "ustr \<Rightarrow> fs \<Rightarrow> completed \<times> fs"
  web_search_result :: "ustr \<Rightarrow> ustr"
  web_browse_result :: "ustr \<Rightarrow> ustr"
  search_project_result :: "ustr \<Rightarrow> fs \<Rightarrow> ustr"
  handle_command :: "ustr \<Rightarrow> config \<Rightarrow> config option"
  repr_list :: "ustr list \<Rightarrow> ustr"
  str_lower :: "ustr \<Rightarrow> ustr"
  str_upper :: "ustr \<Rightarrow> ustr"
  str_exception :: "error \<Rightarrow> ustr"

text \<open>
  The world: the configuration, the files, the effects so far, and how many replies and
  how many lines of the user have been consumed. \<open>provider_call e n\<close> is the reply to call
  number \<open>n\<close>; \<open>console_input e n\<close> is line number \<open>n\<close> the user types, \<open>None\<close> when the
  user interrupts instead. \<open>handle_command e text c\<close> is \<open>None\<close> when \<open>handle_command\<close>
  returns \<open>False\<close> (no such command), and the configuration it leaves otherwise.
\<close>

record world =
  cfg :: config
  files :: fs
  trace :: "event list"
  calls :: nat
  inputs :: nat

text \<open>\<open>text.replace("\\n", "\n")\<close>: a backslash followed by \<open>n\<close> becomes a line feed.\<close>

fun expand_newlines :: "ustr \<Rightarrow> ustr" where
  "expand_newlines [] = []"
| "expand_newlines [c] = [c]"
| "expand_newlines (c # d # ds) =
     (if c = 92 \<and> d = 110 then 10 # expand_newlines ds
      else c # expand_newlines (d # ds))"

text \<open>\<open>str.strip()\<close>: the white space of Unicode is removed at both ends.\<close>

definition is_space :: "nat \<Rightarrow> bool" where
  "is_space c \<longleftrightarrow>
     (9 \<le> c \<and> c \<le> 13) \<or> (28 \<le> c \<and> c \<le> 32) \<or> c = 0x85 \<or> c = 0xA0 \<or> c = 0x1680 \<or>
     (0x2000 \<le> c \<and> c \<le> 0x200A) \<or> c = 0x2028 \<or> c = 0x2029 \<or> c = 0x202F \<or>
     c = 0x205F \<or> c = 0x3000"

definition strip :: "ustr \<Rightarrow> ustr" where
  "strip s = rev (dropWhile is_space (rev (dropWhile is_space s)))"

text \<open>\<open>str(n)\<close> for an integer: its decimal digits.\<close>

function dec :: "nat \<Rightarrow> ustr" where
  "dec n = (if n < 10 then [48 + n] else dec (n div 10) @ [48 + n mod 10])"
  by pat_completeness auto
termination
  by (relation "measure (\<lambda>n. n)") auto

declare dec.simps [simp del]

definition str_int :: "int \<Rightarrow> ustr" where
  "str_int i = (if i < 0 then 45 # dec (nat (- i)) else dec (nat i))"

text \<open>The texts that \<open>handle\<close> formats.\<close>

definition output_msg :: "completed \<Rightarrow> ustr" where
  "output_msg res =
     str ''Command output:\<newline>STDOUT:\<newline>'' @ stdout res @ str ''\<newline>STDERR:\<newline>'' @ stderr res @
     str ''\<newline>Return Code: '' @ str_int (returncode res)"

definition command_results :: "ustr \<Rightarrow> completed \<Rightarrow> ustr" where
  "command_results c res =
     str ''\<newline>\<newline>Command results for `'' @ c @ str ''`:\<newline>'' @ output_msg res"

definition visibility_notice :: "env \<Rightarrow> ustr list \<Rightarrow> ustr" where
  "visibility_notice e requested_files =
     str ''\<newline>\<newline>Error: Permission denied. You requested '' @ repr_list e requested_files @
     str '' but full visibility is currently DISABLED. Ask the user to run `/visibility` to grant permission.''"

definition web_notice :: ustr where
  "web_notice =
     str ''\<newline>\<newline>Error: Web browsing is currently DISABLED. Ask the user to run `/web` to enable it if you need search or browsing capabilities.''"

text \<open>
  What one pass through the body of \<open>handle\<close> comes to: it returns, it raises, or it calls
  \<open>handle\<close> again. Every such call in the source is followed by \<open>return\<close> and stands in
  no \<open>try\<close> block that would catch what it raises, so the call is all that remains to do.
\<close>

datatype "next" = Return world | Raise exn world | Call ustr "mission_data option" world

text \<open>\<open>console.input\<close>: the next line of the user, or \<open>KeyboardInterrupt\<close>.\<close>

definition console_read :: "env \<Rightarrow> world \<Rightarrow> ustr option \<times> world" where
  "console_read e w =
     (console_input e (inputs w), w\<lparr>trace := trace w @ [Input], inputs := Suc (inputs w)\<rparr>)"

text \<open>
  The requested files are read into one text: \<open>p.read_text()\<close> for a file that exists (what
  it raises is not caught), a note for one that does not.
\<close>

fun read_files :: "ustr list \<Rightarrow> ustr \<Rightarrow> world \<Rightarrow> exn option \<times> ustr \<times> world" where
  "read_files [] files_context w = (None, files_context, w)"
| "read_files (rf # rfs) files_context w =
     (let p = Path rf in
      if exists (files w) p then
        (case read_text (files w) p of
           Inl err \<Rightarrow> (Some (File_error err), files_context, w\<lparr>trace := trace w @ [Read_text rf]\<rparr>)
         | Inr t \<Rightarrow>
             read_files rfs
               (files_context @ str ''\<newline>--- '' @ rf @ str '' ---\<newline>'' @ t @ str ''\<newline>'')
               (w\<lparr>trace := trace w @ [Read_text rf]\<rparr>))
      else
        read_files rfs
          (files_context @ str ''\<newline>--- '' @ rf @ str '' ---\<newline>Error: File not found.\<newline>'') w)"

text \<open>
  The sub-steps, tried in this order when the reply is an object: requested files, web
  search and browsing, project search. Each is taken in mission mode or in a plan-only turn
  only. \<open>None\<close>: no sub-step is taken and the turn goes on to the proposal.
\<close>

definition web_context :: "env \<Rightarrow> data \<Rightarrow> ustr" where
  "web_context e d =
     (if web_search d \<noteq> []
      then str ''\<newline>Search Results for '' @ [39] @ web_search d @ [39] @ str '':\<newline>'' @
           web_search_result e (web_search d) @ str ''\<newline>''
      else []) @
     (if web_browse d \<noteq> []
      then str ''\<newline>Content of '' @ web_browse d @ str '':\<newline>'' @
           web_browse_result e (web_browse d) @ str ''\<newline>''
      else [])"

definition web_events :: "data \<Rightarrow> event list" where
  "web_events d =
     (if web_search d \<noteq> [] then [Web_search (web_search d)] else []) @
     (if web_browse d \<noteq> [] then [Web_browse (web_browse d)] else [])"

definition substep :: "env \<Rightarrow> bool \<Rightarrow> data \<Rightarrow> ustr \<Rightarrow> world \<Rightarrow> next option" where
  "substep e is_plan_only d text w =
     (if request_files d \<noteq> [] \<and> (mission_mode (cfg w) \<or> is_plan_only) then
        (if visibility_allowed (cfg w) then
           (case read_files (request_files d) [] w of
              (Some x, files_context, w') \<Rightarrow> Some (Raise x w')
            | (None, files_context, w') \<Rightarrow> Some (Call text (Some (Files files_context)) w'))
         else Some (Call (text @ visibility_notice e (request_files d)) None w))
      else if (web_search d \<noteq> [] \<or> web_browse d \<noteq> []) \<and> (mission_mode (cfg w) \<or> is_plan_only) then
        (if web_browsing_allowed (cfg w) then
           Some (Call text (Some (Web_results (web_context e d)))
                   (w\<lparr>trace := trace w @ web_events d\<rparr>))
         else Some (Call (text @ web_notice) None w))
      else if search_project d \<noteq> [] \<and> (mission_mode (cfg w) \<or> is_plan_only) then
        Some (Call text (Some (Project_search (search_project_result e (search_project d) (files w))))
                (w\<lparr>trace := trace w @ [Search_project (search_project d)]\<rparr>))
      else None)"

text \<open>
  The commands of an accepted proposal. \<open>run_all\<close>: each command is run with its output
  captured; in mission mode the output is appended to the instruction. \<open>run_asked\<close>: the
  user is asked for each command.
\<close>

fun run_all :: "env \<Rightarrow> ustr list \<Rightarrow> ustr \<Rightarrow> world \<Rightarrow> ustr \<times> world" where
  "run_all e [] text w = (text, w)"
| "run_all e (c # cs) text w =
     (case subprocess_run e c (files w) of
        (res, f) \<Rightarrow>
          run_all e cs
            (if mission_mode (cfg w) then text @ command_results c res else text)
            (w\<lparr>files := f, trace := trace w @ [Run_captured c]\<rparr>))"

fun run_asked :: "env \<Rightarrow> ustr list \<Rightarrow> world \<Rightarrow> exn option \<times> world" where
  "run_asked e [] w = (None, w)"
| "run_asked e (c # cs) w =
     (case console_read e w of
        (None, w1) \<Rightarrow> (Some KeyboardInterrupt, w1)
      | (Some answer, w1) \<Rightarrow>
          (if str_lower e answer = str ''y''
           then run_asked e cs
                  (w1\<lparr>files := snd (subprocess_run e c (files w1)), trace := trace w1 @ [Run c]\<rparr>)
           else run_asked e cs w1))"

definition execute_commands ::
  "env \<Rightarrow> args \<Rightarrow> ustr list \<Rightarrow> ustr \<Rightarrow> world \<Rightarrow> exn option \<times> ustr \<times> world" where
  "execute_commands e a cmds text w =
     (if cmds = [] then (None, text, w)
      else if run_policy (cfg w) = str ''never'' then (None, text, w)
      else if run_policy (cfg w) = str ''always'' \<or> args_yes a \<or> mission_mode (cfg w) then
        (case run_all e cmds text w of (text', w') \<Rightarrow> (None, text', w'))
      else (case run_asked e cmds w of (r, w') \<Rightarrow> (r, text, w')))"

text \<open>
  The changes of an accepted proposal are applied; then the mission goes on unless the
  plan has the completion marker.
\<close>

definition mission_complete :: "env \<Rightarrow> data \<Rightarrow> bool" where
  "mission_complete e d = str_contains (str ''MISSION COMPLETE'') (str_upper e (plan d))"

definition after_apply :: "env \<Rightarrow> args \<Rightarrow> data \<Rightarrow> ustr \<Rightarrow> world \<Rightarrow> next" where
  "after_apply e a d text w =
     (let w1 = w\<lparr>trace := trace w @ [Add text]\<rparr> in
      if (args_fast a \<or> fast_mode (cfg w1)) \<and> \<not> mission_mode (cfg w1) then Return w1
      else if mission_mode (cfg w1) then
        (if mission_complete e d then Return (w1\<lparr>cfg := (cfg w1)\<lparr>mission_mode := False\<rparr>\<rparr>)
         else Call text None w1)
      else Return w1)"

definition apply_phase :: "env \<Rightarrow> args \<Rightarrow> data \<Rightarrow> ustr \<Rightarrow> world \<Rightarrow> next" where
  "apply_phase e a d text w =
     (if changes d = [] then Return w
      else
        (case apply_changes (changes d) (files w) of
           (Some err, f) \<Rightarrow>
             (let w1 = w\<lparr>files := f, trace := trace w @ [Apply (changes d)]\<rparr> in
              if mission_mode (cfg w1)
              then Call text (Some (Error (str ''Error applying changes: '' @ str_exception e err))) w1
              else Return w1)
         | (None, f) \<Rightarrow>
             (let w1 = w\<lparr>files := f, trace := trace w @ [Apply (changes d)]\<rparr> in
              if \<not> (args_fast a \<or> fast_mode (cfg w1)) then
                (case console_read e w1 of
                   (None, w2) \<Rightarrow> Raise KeyboardInterrupt w2
                 | (Some l, w2) \<Rightarrow> after_apply e a d text w2)
              else after_apply e a d text w1)))"

text \<open>
  The interaction: with \<open>--yes\<close> the proposal is accepted (the input is taken to be
  \<open>a\<close>); otherwise the user accepts, rejects or types a refinement. (The loop around it
  is left at its first pass, on every path.) An accepted proposal has its commands run,
  then its changes applied.
\<close>

definition accept :: "env \<Rightarrow> args \<Rightarrow> data \<Rightarrow> ustr \<Rightarrow> world \<Rightarrow> next" where
  "accept e a d text w =
     (case execute_commands e a (commands d) text w of
        (Some x, text', w') \<Rightarrow> Raise x w'
      | (None, text', w') \<Rightarrow> apply_phase e a d text' w')"

definition interact :: "env \<Rightarrow> args \<Rightarrow> data \<Rightarrow> ustr \<Rightarrow> world \<Rightarrow> next" where
  "interact e a d text w =
     (if args_yes a then accept e a d text w
      else
        (case console_read e w of
           (None, w1) \<Rightarrow> Raise KeyboardInterrupt w1
         | (Some l, w1) \<Rightarrow>
             (let user_input = strip l in
              if str_lower e user_input \<in> {str ''a'', str ''accept'', []} then accept e a d text w1
              else if str_lower e user_input \<in> {str ''r'', str ''reject''} then Return w1
              else Call (text @ str ''\<newline>\<newline>User Feedback: '' @ user_input) None w1)))"

text \<open>
  The proposal is shown. Two things there are more than printing: \<open>plan_text\<close> is read
  for the speech although it is not bound in fast mode with changes or commands, and the
  user is asked to press enter after the diffs.
\<close>

definition present :: "env \<Rightarrow> args \<Rightarrow> bool \<Rightarrow> data \<Rightarrow> ustr \<Rightarrow> world \<Rightarrow> next" where
  "present e a is_fast d text w =
     (if voice_mode (cfg w) \<and> response d = [] \<and> is_fast \<and> (changes d \<noteq> [] \<or> commands d \<noteq> [])
      then Raise UnboundLocalError w
      else if changes d \<noteq> [] \<and> \<not> (args_yes a \<or> fast_mode (cfg w)) then
        (case console_read e w of
           (None, w1) \<Rightarrow> Raise KeyboardInterrupt w1
         | (Some l, w1) \<Rightarrow> interact e a d text w1)
      else interact e a d text w)"

text \<open>One pass through the body of \<open>handle\<close>.\<close>

definition step :: "env \<Rightarrow> args \<Rightarrow> ustr \<Rightarrow> mission_data option \<Rightarrow> world \<Rightarrow> next" where
  "step e a text0 mission_data w0 =
     (case (if prefix (str ''/'') text0 then handle_command e text0 (cfg w0) else None) of
        Some c \<Rightarrow> Return (w0\<lparr>cfg := c\<rparr>)
      | None \<Rightarrow>
          (let text = (if newline_support (cfg w0) then expand_newlines text0 else text0);
               is_plan_only = (args_plan a \<or> planning_mode (cfg w0));
               is_fast = (args_fast a \<or> fast_mode (cfg w0));
               w = w0\<lparr>trace := trace w0 @ [Think text is_plan_only is_fast mission_data],
                      calls := Suc (calls w0)\<rparr>
           in case provider_call e (calls w0) of
                Init_error \<Rightarrow> Return (w0\<lparr>calls := Suc (calls w0)\<rparr>)
              | Provider_error \<Rightarrow> Return w
              | Interrupt \<Rightarrow> Return w
              | Parse_error msg \<Rightarrow>
                  (if mission_mode (cfg w) then Call text (Some (Error msg)) w else Return w)
              | Object d \<Rightarrow>
                  (case substep e is_plan_only d text w of
                     Some n \<Rightarrow> n
                   | None \<Rightarrow> present e a is_fast d text w)))"












section \<open>Strings: occurrences, find and replace\<close>

lemma occurrences_Nil: "occurrences sub [] = (if sub = [] then [0] else [])"
  by (simp add: occurrences_def)

lemma occurrences_Cons:
  "occurrences sub (x # xs) =
     (if prefix sub (x # xs) then [0] else []) @ map Suc (occurrences sub xs)"
proof -
  have "[0..<Suc (Suc (length xs))] = 0 # [Suc 0..<Suc (Suc (length xs))]"
    by (rule upt_conv_Cons) simp
  also have "[Suc 0..<Suc (Suc (length xs))] = map Suc [0..<Suc (length xs)]"
    by (rule map_Suc_upt [symmetric])
  finally show ?thesis
    by (simp add: occurrences_def filter_map comp_def del: upt_Suc)
qed

lemma str_find_occurrences:
  "str_find sub t = (case occurrences sub t of [] \<Rightarrow> None | i # is \<Rightarrow> Some i)"
  by (induction t) (auto simp: occurrences_Nil occurrences_Cons split: list.splits)

lemma occurrences_iff:
  "i \<in> set (occurrences sub t) \<longleftrightarrow> (\<exists>pre post. t = pre @ sub @ post \<and> length pre = i)"
proof
  assume "i \<in> set (occurrences sub t)"
  then have i: "i \<le> length t" and "prefix sub (drop i t)"
    by (auto simp: occurrences_def simp del: upt_Suc)
  then obtain post where "drop i t = sub @ post"
    by (auto simp: prefix_def)
  then have "t = take i t @ sub @ post"
    by (metis append_take_drop_id)
  with i show "\<exists>pre post. t = pre @ sub @ post \<and> length pre = i"
    by (metis length_take min.absorb2)
next
  assume "\<exists>pre post. t = pre @ sub @ post \<and> length pre = i"
  then show "i \<in> set (occurrences sub t)"
    by (auto simp: occurrences_def simp del: upt_Suc)
qed

lemma str_contains_occurrences: "str_contains sub t \<longleftrightarrow> occurrences sub t \<noteq> []"
  by (simp add: str_contains_def str_find_occurrences split: list.splits)


lemma occurrences_first:
  assumes "occurrences sub t = i # js"
  shows "str_find sub t = Some i" and "t = take i t @ sub @ drop (i + length sub) t"
proof -
  show "str_find sub t = Some i"
    by (simp add: str_find_occurrences assms)
  have "i \<in> set (occurrences sub t)"
    by (simp add: assms)
  then obtain pre post where "t = pre @ sub @ post" "length pre = i"
    unfolding occurrences_iff by blast
  then show "t = take i t @ sub @ drop (i + length sub) t"
    by auto
qed

section \<open>Resolving paths\<close>

lemma walk_snoc:
  "walk s k (cs @ [c]) =
     (case walk s k cs of
        Inl e \<Rightarrow> Inl e
      | Inr k' \<Rightarrow>
          (case node_at s k' of
             None \<Rightarrow> Inl FileNotFoundError
           | Some (File t) \<Rightarrow> Inl NotADirectoryError
           | Some Dir \<Rightarrow> Inr (if c = str ''..'' then butlast k' else k' @ [c])))"
  by (induction cs arbitrary: k) (auto split: option.splits node.splits)

lemma resolve_parent:
  assumes "resolve s p = Inr k" "snd p \<noteq> []"
  shows "is_dir s (parent p)"
proof -
  from assms(2) obtain cs c where cs: "snd p = cs @ [c]"
    by (metis rev_exhaust)
  with assms(1) show ?thesis
    by (auto simp: resolve_def is_dir_def parent_def walk_snoc
             split: sum.splits option.splits node.splits if_splits)
qed

lemma read_text_resolve:
  assumes "read_text s p = Inr t"
  obtains k bs u where "resolve s p = Inr k" "node_at s k = Some (File bs)"
    "locale_decode s bs = Some u" "t = translate_newlines u"
  using assms
  by (auto simp: read_text_def split: sum.splits option.splits node.splits)

lemma read_text_parent_is_dir:
  assumes "read_text s p = Inr t" "node_at s (cwd s) = Some Dir"
  shows "is_dir s (parent p)"
proof (cases "snd p = []")
  case True
  from assms(1) obtain k bs where "resolve s p = Inr k" "node_at s k = Some (File bs)"
    by (rule read_text_resolve)
  with True assms(2) show ?thesis
    by (auto simp: resolve_def node_at_def split: if_splits)
next
  case False
  from assms(1) obtain k where "resolve s p = Inr k"
    by (rule read_text_resolve)
  then show ?thesis
    using False by (rule resolve_parent)
qed

lemma exists_read_text: "read_text s p = Inr t \<Longrightarrow> exists s p"
  by (auto simp: exists_def elim!: read_text_resolve)

section \<open>Directories are only ever added\<close>



lemma extends_node_at:
  "extends s s' \<Longrightarrow> node_at s k = Some n \<Longrightarrow> node_at s' k = Some n"
  unfolding extends_def node_at_def by (metis option.distinct(1))

lemma walk_extends:
  "extends s s' \<Longrightarrow> walk s k cs = Inr k' \<Longrightarrow> walk s' k cs = Inr k'"
proof (induction cs arbitrary: k)
  case Nil
  then show ?case by simp
next
  case (Cons c cs)
  from Cons.prems(2) have d: "node_at s k = Some Dir"
    by (auto split: option.splits node.splits)
  with Cons.prems(1) have "node_at s' k = Some Dir"
    by (rule extends_node_at)
  with Cons d show ?case by simp
qed

lemma resolve_extends:
  "extends s s' \<Longrightarrow> resolve s p = Inr k \<Longrightarrow> resolve s' p = Inr k"
  unfolding resolve_def using walk_extends [of s s'] by (auto simp: extends_def)

lemma is_dir_extends:
  assumes "extends s s'" "is_dir s p"
  shows "is_dir s' p"
proof -
  from assms(2) obtain k where k: "resolve s p = Inr k" "node_at s k = Some Dir"
    by (auto simp: is_dir_def split: sum.splits)
  from assms(1) k(1) have "resolve s' p = Inr k"
    by (rule resolve_extends)
  moreover from assms(1) k(2) have "node_at s' k = Some Dir"
    by (rule extends_node_at)
  ultimately show ?thesis
    by (simp add: is_dir_def)
qed

lemma read_text_extends:
  assumes "extends s s'" "read_text s p = Inr t"
  shows "read_text s' p = Inr t"
proof -
  from assms(2) obtain k bs u where k: "resolve s p = Inr k" "node_at s k = Some (File bs)"
    "locale_decode s bs = Some u" "t = translate_newlines u"
    by (rule read_text_resolve)
  from assms(1) k(1) have "resolve s' p = Inr k"
    by (rule resolve_extends)
  moreover from assms(1) k(2) have "node_at s' k = Some (File bs)"
    by (rule extends_node_at)
  moreover from assms(1) have "locale_decode s' = locale_decode s"
    by (simp add: extends_def)
  ultimately show ?thesis
    using k(3,4) by (simp add: read_text_def)
qed



lemma mkdir_exist_ok_error: "mkdir_exist_ok p s = Inl e \<Longrightarrow> \<not> is_dir s p"
  by (auto simp: mkdir_exist_ok_def os_mkdir_def is_dir_def split: sum.splits if_splits)



lemma mkdir_parents_is_dir: "is_dir s q \<Longrightarrow> mkdir_parents q s = (None, s)"
  by (subst mkdir_parents.simps)
     (auto simp: os_mkdir_def is_dir_def split: sum.splits)


section \<open>One change on an existing file\<close>


lemma write_text_file:
  assumes "resolve s p = Inr k" "node_at s k \<noteq> Some Dir"
  shows "write_text p new s =
     (case utf8_encode new of
        None \<Rightarrow> (Some UnicodeEncodeError, s\<lparr>nodes := (nodes s)(k \<mapsto> File [])\<rparr>)
      | Some bs \<Rightarrow> (None, s\<lparr>nodes := (nodes s)(k \<mapsto> File bs)\<rparr>))"
  using assms by (simp add: write_text_def)

lemma apply_changes_write:
  assumes "mkdir_parents (parent (Path (file' c))) s = (None, s1)"
    and "new_text c s1 = Inr new"
    and "resolve s1 (Path (file' c)) = Inr k" "node_at s1 k \<noteq> Some Dir"
  shows "apply_changes (c # cs) s =
     (case utf8_encode new of
        None \<Rightarrow> (Some UnicodeEncodeError, s1\<lparr>nodes := (nodes s1)(k \<mapsto> File [])\<rparr>)
      | Some bs \<Rightarrow> apply_changes cs (s1\<lparr>nodes := (nodes s1)(k \<mapsto> File bs)\<rparr>))"
  using assms(1,2) by (simp add: write_text_file [OF assms(3,4)] split: option.splits)

lemma apply_changes_existing:
  assumes "node_at s (cwd s) = Some Dir"
    and "resolve s (Path (file' c)) = Inr k"
    and "read_text s (Path (file' c)) = Inr t"
  shows "apply_changes (c # cs) s =
     (if original c \<noteq> [] \<and> \<not> str_contains (original c) t
      then (Some (RuntimeError (str ''Mismatch in '' @ file' c)), s)
      else (case utf8_encode
                   (if original c \<noteq> [] then replace_first (original c) (edited c) t
                    else edited c) of
              None \<Rightarrow> (Some UnicodeEncodeError, s\<lparr>nodes := (nodes s)(k \<mapsto> File [])\<rparr>)
            | Some bs \<Rightarrow> apply_changes cs (s\<lparr>nodes := (nodes s)(k \<mapsto> File bs)\<rparr>)))"
proof -
  let ?p = "Path (file' c)"
  from assms(3,1) have "is_dir s (parent ?p)"
    by (rule read_text_parent_is_dir)
  then have m: "mkdir_parents (parent ?p) s = (None, s)"
    by (rule mkdir_parents_is_dir)
  have e: "exists s ?p"
    using assms(3) by (rule exists_read_text)
  from assms(3) obtain k' bs where "resolve s ?p = Inr k'" "node_at s k' = Some (File bs)"
    by (rule read_text_resolve)
  with assms(2) have nd: "node_at s k \<noteq> Some Dir"
    by simp
  show ?thesis
  proof (cases "original c \<noteq> [] \<and> \<not> str_contains (original c) t")
    case True
    with e assms(3) have "new_text c s = Inl (RuntimeError (str ''Mismatch in '' @ file' c))"
      by (simp add: new_text_def)
    with m True show ?thesis by simp
  next
    case False
    with e assms(3) have "new_text c s =
        Inr (if original c \<noteq> [] then replace_first (original c) (edited c) t else edited c)"
      by (auto simp: new_text_def)
    note eq = apply_changes_write [OF m this assms(2) nd, of cs]
    from False show ?thesis
      by (subst eq) auto
  qed
qed

section \<open>Well-formedness is preserved\<close>











section \<open>The scenario file system\<close>

lemma wf_scenario_fs: "wf_fs (scenario_fs bs)"
  by (simp add: wf_fs_def scenario_fs_def node_at_def)

lemma Path_a_txt: "Path (str ''a.txt'') = ([], [str ''a.txt''])"
  by (simp add: Path_def path_root_def str_def)

lemma resolve_scenario_fs:
  "resolve (scenario_fs bs) ([], [str ''a.txt'']) = Inr [str ''home'', str ''a.txt'']"
  by (simp add: resolve_def scenario_fs_def node_at_def str_def)

lemma read_text_scenario_fs:
  "read_text (scenario_fs bs) ([], [str ''a.txt'']) =
     (case ascii_decode bs of
        None \<Rightarrow> Inl UnicodeDecodeError
      | Some u \<Rightarrow> Inr (translate_newlines u))"
  by (simp add: read_text_def resolve_scenario_fs) (simp add: scenario_fs_def node_at_def)

lemma scenario_fs_update:
  "(scenario_fs bs)\<lparr>nodes := (nodes (scenario_fs bs))([str ''home'', str ''a.txt''] \<mapsto> File bs')\<rparr> =
     scenario_fs bs'"
  by (simp add: scenario_fs_def)

section \<open>Anchored replacement\<close>

text \<open>
  Claim C1 says that the file after \<open>apply\<close> is the file before it with the one occurrence
  replaced, byte for byte. It is not: the file is read as text, so a line end written as
  carriage return and line feed comes back as a line feed alone.
\<close>

theorem apply_line_ends_counterexample:
  "occurrences ''foo'' (''line1'' @ [CHR 0x0D, CHR 0x0A] @ ''hello foo world'' @ [CHR 0x0D, CHR 0x0A])
     = [13] \<and>
   apply_changes [\<lparr>file' = str ''a.txt'', original = str ''foo'', edited = str ''bar''\<rparr>]
       (scenario_fs (''line1'' @ [CHR 0x0D, CHR 0x0A] @ ''hello foo world'' @ [CHR 0x0D, CHR 0x0A])) =
     (None, scenario_fs (''line1'' @ [CHR 0x0A] @ ''hello bar world'' @ [CHR 0x0A])) \<and>
   ''line1'' @ [CHR 0x0A] @ ''hello bar world'' @ [CHR 0x0A] \<noteq>
     take 13 (''line1'' @ [CHR 0x0D, CHR 0x0A] @ ''hello foo world'' @ [CHR 0x0D, CHR 0x0A]) @
     ''bar'' @
     drop 16 (''line1'' @ [CHR 0x0D, CHR 0x0A] @ ''hello foo world'' @ [CHR 0x0D, CHR 0x0A])"
proof -
  let ?b = "''line1'' @ [CHR 0x0D, CHR 0x0A] @ ''hello foo world'' @ [CHR 0x0D, CHR 0x0A]"
  let ?c = "\<lparr>file' = str ''a.txt'', original = str ''foo'', edited = str ''bar''\<rparr>"
  have o: "occurrences ''foo'' ?b = [13]"
    by (simp add: occurrences_def)
  have r: "read_text (scenario_fs ?b) (Path (file' ?c)) =
      Inr (str (''line1'' @ [CHR 0x0A] @ ''hello foo world'' @ [CHR 0x0A]))"
    by (simp only: Path_a_txt read_text_scenario_fs change.simps)
       (simp add: ascii_decode_def str_def)
  have d: "node_at (scenario_fs ?b) (cwd (scenario_fs ?b)) = Some Dir"
    using wf_scenario_fs [of ?b] by (simp add: wf_fs_def)
  have k: "resolve (scenario_fs ?b) (Path (file' ?c)) = Inr [str ''home'', str ''a.txt'']"
    by (simp add: Path_a_txt resolve_scenario_fs)
  have "apply_changes [?c] (scenario_fs ?b) =
     (None, scenario_fs (''line1'' @ [CHR 0x0A] @ ''hello bar world'' @ [CHR 0x0A]))"
    by (subst apply_changes_existing [OF d k r])
       (simp add: str_contains_def replace_first_def str_def encode_code_point_def
          scenario_fs_def char_of_def bit_iff_odd)
  with o show ?thesis
    by simp
qed

text \<open>
  Claim C1, as the code has it. A change whose non-empty \<open>original\<close> occurs exactly once,
  at index \<open>i\<close>, in the text \<open>t\<close> read from the existing target file (its bytes decoded,
  its line ends translated): the text before index \<open>i\<close> and the text after the occurrence
  are kept, the occurrence is replaced by \<open>edited\<close>, and the file receives the UTF-8
  encoding of the result; no other node of the file system changes. A result that cannot
  be encoded raises \<open>UnicodeEncodeError\<close> and leaves the file empty.
\<close>

theorem apply_replaces_single_occurrence:
  assumes "wf_fs s"
    and "resolve s (Path (file' c)) = Inr k"
    and "read_text s (Path (file' c)) = Inr t"
    and "original c \<noteq> []"
    and "occurrences (original c) t = [i]"
  shows "t = take i t @ original c @ drop (i + length (original c)) t \<and>
     apply_changes [c] s =
       (case utf8_encode (take i t @ edited c @ drop (i + length (original c)) t) of
          None \<Rightarrow> (Some UnicodeEncodeError, s\<lparr>nodes := (nodes s)(k \<mapsto> File [])\<rparr>)
        | Some bs \<Rightarrow> (None, s\<lparr>nodes := (nodes s)(k \<mapsto> File bs)\<rparr>))"
proof -
  from assms(1) have d: "node_at s (cwd s) = Some Dir"
    by (simp add: wf_fs_def)
  from assms(5) have f: "str_find (original c) t = Some i"
    and t: "t = take i t @ original c @ drop (i + length (original c)) t"
    by (rule occurrences_first)+
  from f have "str_contains (original c) t"
    by (simp add: str_contains_def)
  with f assms(4) have "apply_changes [c] s =
       (case utf8_encode (take i t @ edited c @ drop (i + length (original c)) t) of
          None \<Rightarrow> (Some UnicodeEncodeError, s\<lparr>nodes := (nodes s)(k \<mapsto> File [])\<rparr>)
        | Some bs \<Rightarrow> (None, s\<lparr>nodes := (nodes s)(k \<mapsto> File bs)\<rparr>))"
    by (subst apply_changes_existing [OF d assms(2,3)])
       (simp add: replace_first_def split: option.splits)
  with t show ?thesis ..
qed

theorem apply_replaces_single_occurrence_witness:
  "wf_fs (scenario_fs ''hello foo world'') \<and>
   read_text (scenario_fs ''hello foo world'') (Path (str ''a.txt'')) =
     Inr (str ''hello foo world'') \<and>
   occurrences (str ''foo'') (str ''hello foo world'') = [6] \<and>
   apply_changes [\<lparr>file' = str ''a.txt'', original = str ''foo'', edited = str ''bar''\<rparr>]
       (scenario_fs ''hello foo world'') =
     (None, scenario_fs ''hello bar world'')"
proof -
  let ?s = "scenario_fs ''hello foo world''"
  let ?c = "\<lparr>file' = str ''a.txt'', original = str ''foo'', edited = str ''bar''\<rparr>"
  have o: "occurrences (str ''foo'') (str ''hello foo world'') = [6]"
    by (simp add: occurrences_def str_def)
  have r: "read_text ?s (Path (str ''a.txt'')) = Inr (str ''hello foo world'')"
    by (simp only: Path_a_txt read_text_scenario_fs change.simps)
       (simp add: ascii_decode_def str_def)
  have k: "resolve ?s (Path (file' ?c)) = Inr [str ''home'', str ''a.txt'']"
    by (simp add: Path_a_txt resolve_scenario_fs)
  have r': "read_text ?s (Path (file' ?c)) = Inr (str ''hello foo world'')"
    using r by simp
  have n: "original ?c \<noteq> []"
    by (simp add: str_def)
  have o': "occurrences (original ?c) (str ''hello foo world'') = [6]"
    using o by simp
  have "apply_changes [?c] ?s = (None, scenario_fs ''hello bar world'')"
    by (subst apply_replaces_single_occurrence [OF wf_scenario_fs k r' n o', THEN conjunct2])
       (simp add: str_def encode_code_point_def scenario_fs_def char_of_def bit_iff_odd)
  with o r show ?thesis
    by (simp add: wf_scenario_fs)
qed

section \<open>Mismatch is fail-fast\<close>



section \<open>Repeated anchors\<close>

text \<open>
  Claim C3 says that \<open>apply\<close> fails unless \<open>original\<close> occurs exactly once. It does not:
  with two occurrences the call returns normally and the first one is replaced.
\<close>

theorem apply_repeated_anchor_counterexample:
  "read_text (scenario_fs ''foo foo'') (Path (str ''a.txt'')) = Inr (str ''foo foo'') \<and>
   occurrences (str ''foo'') (str ''foo foo'') = [0, 4] \<and>
   apply_changes [\<lparr>file' = str ''a.txt'', original = str ''foo'', edited = str ''bar''\<rparr>]
       (scenario_fs ''foo foo'') =
     (None, scenario_fs ''bar foo'')"
proof -
  let ?s = "scenario_fs ''foo foo''"
  let ?c = "\<lparr>file' = str ''a.txt'', original = str ''foo'', edited = str ''bar''\<rparr>"
  have o: "occurrences (str ''foo'') (str ''foo foo'') = [0, 4]"
    by (simp add: occurrences_def str_def)
  have d: "node_at ?s (cwd ?s) = Some Dir"
    using wf_scenario_fs [of "''foo foo''"] by (simp add: wf_fs_def)
  have k: "resolve ?s (Path (file' ?c)) = Inr [str ''home'', str ''a.txt'']"
    by (simp add: Path_a_txt resolve_scenario_fs)
  have r: "read_text ?s (Path (str ''a.txt'')) = Inr (str ''foo foo'')"
    by (simp only: Path_a_txt read_text_scenario_fs)
       (simp add: ascii_decode_def str_def)
  then have r': "read_text ?s (Path (file' ?c)) = Inr (str ''foo foo'')"
    by simp
  have "apply_changes [?c] ?s = (None, scenario_fs ''bar foo'')"
    by (subst apply_changes_existing [OF d k r'])
       (simp add: str_contains_def replace_first_def str_def encode_code_point_def
          scenario_fs_def char_of_def bit_iff_odd)
  with r o show ?thesis
    by simp
qed

text \<open>
  Claim C3, as the code has it. For a change with non-empty \<open>original\<close> on an existing
  file, whose text is read as \<open>t\<close>: \<open>apply\<close> fails with the mismatch error, writing
  nothing, when \<open>original\<close> does not occur in \<open>t\<close>; when it occurs, once or several
  times, the leftmost occurrence only is replaced and the result is written (the file is
  left empty, with \<open>UnicodeEncodeError\<close>, when the result cannot be encoded).
\<close>

theorem apply_anchor_first_occurrence:
  assumes "wf_fs s"
    and "resolve s (Path (file' c)) = Inr k"
    and "read_text s (Path (file' c)) = Inr t"
    and "original c \<noteq> []"
  shows "(occurrences (original c) t = [] \<longrightarrow>
            apply_changes [c] s =
              (Some (RuntimeError (str ''Mismatch in '' @ file' c)), s)) \<and>
         (\<forall>i js. occurrences (original c) t = i # js \<longrightarrow>
            apply_changes [c] s =
              (case utf8_encode (take i t @ edited c @ drop (i + length (original c)) t) of
                 None \<Rightarrow> (Some UnicodeEncodeError, s\<lparr>nodes := (nodes s)(k \<mapsto> File [])\<rparr>)
               | Some bs \<Rightarrow> (None, s\<lparr>nodes := (nodes s)(k \<mapsto> File bs)\<rparr>)))"
proof -
  from assms(1) have d: "node_at s (cwd s) = Some Dir"
    by (simp add: wf_fs_def)
  note step = apply_changes_existing [OF d assms(2,3), of "[]"]
  have "apply_changes [c] s = (Some (RuntimeError (str ''Mismatch in '' @ file' c)), s)"
    if "occurrences (original c) t = []"
    using that assms(4) by (subst step) (simp add: str_contains_occurrences)
  moreover have "apply_changes [c] s =
      (case utf8_encode (take i t @ edited c @ drop (i + length (original c)) t) of
         None \<Rightarrow> (Some UnicodeEncodeError, s\<lparr>nodes := (nodes s)(k \<mapsto> File [])\<rparr>)
       | Some bs \<Rightarrow> (None, s\<lparr>nodes := (nodes s)(k \<mapsto> File bs)\<rparr>))"
    if "occurrences (original c) t = i # js" for i js
  proof -
    from that have "str_find (original c) t = Some i"
      by (rule occurrences_first)
    with assms(4) show ?thesis
      by (subst step) (simp add: str_contains_def replace_first_def split: option.splits)
  qed
  ultimately show ?thesis by blast
qed

theorem apply_anchor_first_occurrence_witness:
  "wf_fs (scenario_fs ''foo foo'') \<and>
   read_text (scenario_fs ''foo foo'') (Path (str ''a.txt'')) = Inr (str ''foo foo'') \<and>
   occurrences (str ''zzz'') (str ''foo foo'') = [] \<and>
   apply_changes [\<lparr>file' = str ''a.txt'', original = str ''zzz'', edited = str ''bar''\<rparr>]
       (scenario_fs ''foo foo'') =
     (Some (RuntimeError (str ''Mismatch in a.txt'')), scenario_fs ''foo foo'') \<and>
   occurrences (str ''oo'') (str ''foo foo'') = [1, 5] \<and>
   apply_changes [\<lparr>file' = str ''a.txt'', original = str ''oo'', edited = str ''ar''\<rparr>]
       (scenario_fs ''foo foo'') =
     (None, scenario_fs ''far foo'')"
proof -
  let ?s = "scenario_fs ''foo foo''"
  let ?c = "\<lparr>file' = str ''a.txt'', original = str ''zzz'', edited = str ''bar''\<rparr>"
  let ?c' = "\<lparr>file' = str ''a.txt'', original = str ''oo'', edited = str ''ar''\<rparr>"
  have o: "occurrences (str ''zzz'') (str ''foo foo'') = []"
    by (simp add: occurrences_def str_def)
  have o': "occurrences (str ''oo'') (str ''foo foo'') = [1, 5]"
    by (simp add: occurrences_def str_def)
  have r: "read_text ?s (Path (str ''a.txt'')) = Inr (str ''foo foo'')"
    by (simp only: Path_a_txt read_text_scenario_fs)
       (simp add: ascii_decode_def str_def)
  have k: "resolve ?s (Path (file' ?c)) = Inr [str ''home'', str ''a.txt'']"
    by (simp add: Path_a_txt resolve_scenario_fs)
  have rc: "read_text ?s (Path (file' ?c)) = Inr (str ''foo foo'')"
    using r by simp
  have n: "original ?c \<noteq> []"
    by (simp add: str_def)
  have oc: "occurrences (original ?c) (str ''foo foo'') = []"
    using o by simp
  have k': "resolve ?s (Path (file' ?c')) = Inr [str ''home'', str ''a.txt'']"
    by (simp add: Path_a_txt resolve_scenario_fs)
  have rc': "read_text ?s (Path (file' ?c')) = Inr (str ''foo foo'')"
    using r by simp
  have n': "original ?c' \<noteq> []"
    by (simp add: str_def)
  have oc': "occurrences (original ?c') (str ''foo foo'') = 1 # [5]"
    using o' by simp
  from apply_anchor_first_occurrence [OF wf_scenario_fs k rc n, THEN conjunct1] oc
  have "apply_changes [?c] ?s = (Some (RuntimeError (str ''Mismatch in '' @ file' ?c)), ?s)"
    by (rule mp)
  then have a: "apply_changes [?c] ?s =
      (Some (RuntimeError (str ''Mismatch in a.txt'')), ?s)"
    by (simp add: str_def)
  have b: "apply_changes [?c'] ?s = (None, scenario_fs ''far foo'')"
    by (subst apply_anchor_first_occurrence [OF wf_scenario_fs k' rc' n', THEN conjunct2,
          rule_format, OF oc'])
       (simp add: str_def encode_code_point_def scenario_fs_def char_of_def bit_iff_odd)
  from o o' r a b show ?thesis
    by (simp add: wf_scenario_fs)
qed


section \<open>Targets that do not exist, and full overwrites\<close>












section \<open>Directories made before a mismatch\<close>



















lemma Path_d_e_a_txt:
  "Path (str ''d/e/../../a.txt'') = ([], [str ''d'', str ''e'', str ''..'', str ''..'', str ''a.txt''])"
  by (simp add: Path_def path_root_def str_def)



section \<open>The JSON recogniser reads a prefix\<close>


lemma length_skip_ws: "length (skip_ws s) \<le> length s"
  by (simp add: skip_ws_def length_dropWhile_le)


lemma suffix_dropWhile_Cons: "suffix (dropWhile P xs) (x # xs)"
  by (simp add: suffix_ConsI suffix_dropWhile)


lemmas json_eval = json_loads_ok_def skip_ws_def is_ws_def match_number_def is_digit_def
  is_control_def is_hex_def slice_def skip_minus_def match_int_def match_frac_def
  skip_sign_def match_exp_def

lemma json_accepts_numbers:
  \<open>json_loads_ok ''{"a": [1, -2.5e-3, 0, 1e5, -0.1E+2]}''\<close>
  by (simp add: json_eval)
lemma json_rejects_bare_fraction:
  \<open>\<not> json_loads_ok ''[1.]''\<close>
  by (simp add: json_eval)
lemma json_rejects_bare_exponent:
  \<open>\<not> json_loads_ok ''[1e]''\<close>
  by (simp add: json_eval)
lemma json_rejects_leading_zero:
  \<open>\<not> json_loads_ok ''[01]''\<close>
  by (simp add: json_eval)
lemma json_rejects_lone_minus:
  \<open>\<not> json_loads_ok ''[-]''\<close>
  by (simp add: json_eval)

lemma shorter_left: "suffix r s \<and> length r < length s \<Longrightarrow> suffix s t \<Longrightarrow>
    suffix r t \<and> length r < length t"
  by (auto intro: suffix_order.trans dest: suffix_length_le)

lemma shorter_right: "suffix r s \<Longrightarrow> suffix s t \<and> length s < length t \<Longrightarrow>
    suffix r t \<and> length r < length t"
  by (auto intro: suffix_order.trans dest: suffix_length_le)

lemma shorter_Cons: "suffix r s \<Longrightarrow> suffix r (c # s) \<and> length r < length (c # s)"
  by (auto simp: suffix_ConsI dest: suffix_length_le)

lemma shorter_drop: "0 < k \<Longrightarrow> take k s = w \<Longrightarrow> length w = k \<Longrightarrow>
    suffix (drop k s) s \<and> length (drop k s) < length s"
  by (auto simp: suffix_drop)




section \<open>The backward scan of \<open>extract_json\<close>\<close>














section \<open>Steps of the scanner, fuel and extension of the text\<close>

























lemma scan_once_Nil [simp]: "scan_once n [] = None"
  by (cases n) simp_all

lemma parse_members_Nil [simp]: "parse_members n [] = None"
  by (cases n) simp_all

lemma parse_items_Nil [simp]: "parse_items n [] = None"
  by (cases n) simp_all









section \<open>What \<open>extract_json\<close> returns\<close>












section \<open>One object in prose\<close>





section \<open>Commands of an accepted proposal\<close>







section \<open>Requests without permission\<close>





section \<open>A mission without the completion marker\<close>














end
